theory Spec2Isabelle
  imports Complex_Main
begin

section \<open>AeroFoam: runtime selection of the turbulence closure and of the solver\<close>

text \<open>
  A shallow embedding of the header-level code of \<^verbatim>\<open>myNavierStokes.H\<close>,
  \<^verbatim>\<open>mySpalartAllmaras.H\<close>, \<^verbatim>\<open>myKappaOmega.H\<close>, \<^verbatim>\<open>myTurbulence.H\<close> and
  \<^verbatim>\<open>mySolver.H\<close>: the constructors, the inline accessors and the forwarding
  wrapper \<^verbatim>\<open>myTurbulence\<close>.

  Conventions.
  \<^item> OpenFOAM's \<^verbatim>\<open>word\<close> is a \<open>string\<close>, \<^verbatim>\<open>label\<close> an \<open>int\<close> (labels are only
    compared with \<open>0\<close> here, never computed with), \<^verbatim>\<open>scalar\<close> a \<open>real\<close> (scalars are
    only stored, compared and passed to \<^verbatim>\<open>max\<close> here), a \<^verbatim>\<open>scalarField\<close> the list of
    its per-cell values.
  \<^item> A C++ class is a record of its data members; the members that no modelled
    function reads (gradients, wall distance, model constants, primitive variables)
    are left out.
  \<^item> Objects created with \<^verbatim>\<open>new\<close> live in an explicit heap, a map from addresses
    to objects; a pointer is an \<open>addr option\<close> with \<open>None\<close> for \<^verbatim>\<open>NULL\<close>.
  \<^item> A returned \<^verbatim>\<open>scalarField&\<close> is a reference: the name of the array it
    designates, to be read through the state.
\<close>

subsection \<open>Basic types and library functions\<close>

type_synonym word = string
type_synonym label = int
type_synonym scalar = real
type_synonym scalarField = "scalar list"
type_synonym vector = "scalar \<times> scalar \<times> scalar"
type_synonym vectorField = "vector list"
type_synonym addr = nat

text \<open>OpenFOAM's \<^verbatim>\<open>max(s1, s2)\<close> on scalars is \<^verbatim>\<open>(s1 > s2) ? s1 : s2\<close>;
  on a field and a scalar it is applied to every entry.\<close>

definition Foam_max :: "scalar \<Rightarrow> scalar \<Rightarrow> scalar" where
  "Foam_max s1 s2 = (if s1 > s2 then s1 else s2)"

definition Foam_max_field :: "scalarField \<Rightarrow> scalar \<Rightarrow> scalarField" where
  "Foam_max_field f s = map (\<lambda>x. Foam_max x s) f"

text \<open>\<^verbatim>\<open># define SA_SMALL 1e-10\<close>, \<^verbatim>\<open># define KW_SMALL 1e-10\<close> and
  \<^verbatim>\<open># define MG_TURON 1\<close>.\<close>

definition SA_SMALL :: scalar where
  "SA_SMALL = 1 / 10 ^ 10"

definition KW_SMALL :: scalar where
  "KW_SMALL = 1 / 10 ^ 10"

definition MG_TURON :: int where
  "MG_TURON = 1"

subsection \<open>Collaborators: time database and mesh\<close>

text \<open>
  Of \<^verbatim>\<open>Time\<close> the code uses the control dictionary (\<^verbatim>\<open>found\<close>, \<^verbatim>\<open>lookup\<close>), the
  case path, and the object registry from which a \<^verbatim>\<open>READ_IF_PRESENT\<close> field gets its
  internal values: \<open>io_field t name\<close> is the internal field that the library
  delivers for the field called \<open>name\<close>. Of \<^verbatim>\<open>myMesh\<close> it uses \<^verbatim>\<open>tag()\<close> and
  \<^verbatim>\<open>V().size()\<close>.
\<close>

record Time =
  controlDict :: "word \<rightharpoonup> word"
  path :: string
  io_field :: "word \<Rightarrow> scalarField"

record myMesh =
  mesh_id :: label
  mesh_tag :: word
  mesh_V_size :: nat

subsection \<open>The flow operator \<^verbatim>\<open>myNavierStokes\<close>\<close>

record myNavierStokes =
  NS_tag :: word
  NS_time :: Time
  NS_mesh :: myMesh
  residualRho :: scalar
  residualM :: scalar
  residualEt :: scalar
  maxResidualRho :: scalar
  maxResidualM :: scalar
  maxResidualEt :: scalar
  rhsRho :: scalarField
  rhsM :: vectorField
  rhsEt :: scalarField
  dtsImplicit :: scalarField
  dtsRho :: scalarField
  dtsM :: vectorField
  dtsEt :: scalarField
  bodyRho :: scalarField
  bodyM :: vectorField
  bodyEt :: scalarField

definition myNavierStokes_ctor :: "Time \<Rightarrow> myMesh \<Rightarrow> myNavierStokes" where
  "myNavierStokes_ctor inputTime inputMesh =
     (let n = mesh_V_size inputMesh;
          tag0 = ''Euler'';
          tag1 = (case controlDict inputTime ''physics'' of Some v \<Rightarrow> v | None \<Rightarrow> tag0);
          tag2 = (if tag1 = ''Euler'' then ''E'' else tag1);
          tag3 = (if tag2 = ''ReynoldsAveragedNavierStokes'' then ''RANS'' else tag2)
      in \<lparr> NS_tag = tag3,
           NS_time = inputTime,
           NS_mesh = inputMesh,
           residualRho = - 1,
           residualM = - 1,
           residualEt = - 1,
           maxResidualRho = 1 / 10 ^ 16,
           maxResidualM = 1 / 10 ^ 16,
           maxResidualEt = 1 / 10 ^ 16,
           rhsRho = replicate n 0,
           rhsM = replicate n (0, 0, 0),
           rhsEt = replicate n 0,
           dtsImplicit = replicate n 1,
           dtsRho = replicate n 0,
           dtsM = replicate n (0, 0, 0),
           dtsEt = replicate n 0,
           bodyRho = replicate n 0,
           bodyM = replicate n (0, 0, 0),
           bodyEt = replicate n 0 \<rparr>)"

text \<open>The header only declares \<^verbatim>\<open>myNavierStokes::residual()\<close> ("Maximum residual");
  its body is in \<^verbatim>\<open>myNavierStokes.C\<close>. The per-equation accessors
  \<^verbatim>\<open>residualRho()\<close>, \<^verbatim>\<open>residualM()\<close> and \<^verbatim>\<open>residualEt()\<close> are the record's
  selectors.\<close>

subsection \<open>The one-equation closure \<^verbatim>\<open>mySpalartAllmaras\<close>\<close>

record mySpalartAllmaras =
  SA_tag :: word
  SA_size :: label
  nuTilda :: scalarField
  nuTilda_o :: scalarField
  residualNuTilda :: scalar
  maxResidualNuTilda :: scalar
  rhsNuTilda :: scalarField
  lhsNuTilda :: scalarField
  dtsNuTilda :: scalarField
  bodyNuTilda :: scalarField

text \<open>The member initialisers run in the order of the declarations: \<^verbatim>\<open>_nuTilda\<close> is
  restored, \<^verbatim>\<open>_nuTilda_o\<close> is built from it, and only the constructor's body clamps
  \<^verbatim>\<open>_nuTilda\<close> from below.\<close>

definition mySpalartAllmaras_ctor :: "myNavierStokes \<Rightarrow> mySpalartAllmaras" where
  "mySpalartAllmaras_ctor inputNavierStokes =
     (let t = NS_time inputNavierStokes;
          n = mesh_V_size (NS_mesh inputNavierStokes);
          nuTilda0 = io_field t ''nuTilda''
      in \<lparr> SA_tag = (case controlDict t ''turbulence'' of Some v \<Rightarrow> v
                      | None \<Rightarrow> ''SpalartAllmaras''),
           SA_size = 1,
           nuTilda = Foam_max_field nuTilda0 SA_SMALL,
           nuTilda_o = nuTilda0,
           residualNuTilda = - 1,
           maxResidualNuTilda = 1 / 10 ^ 16,
           rhsNuTilda = replicate n 0,
           lhsNuTilda = replicate n 0,
           dtsNuTilda = replicate n 0,
           bodyNuTilda = replicate n 0 \<rparr>)"

definition SA_residual :: "mySpalartAllmaras \<Rightarrow> scalar" where
  "SA_residual s = residualNuTilda s"

text \<open>The opaque accessors return a reference to one of the object's own arrays;
  the model returns which one.\<close>

datatype SA_member = NuTilda | NuTilda_o | BodyNuTilda | RhsNuTilda

fun SA_field :: "mySpalartAllmaras \<Rightarrow> SA_member \<Rightarrow> scalarField" where
  "SA_field s NuTilda = nuTilda s"
| "SA_field s NuTilda_o = nuTilda_o s"
| "SA_field s BodyNuTilda = bodyNuTilda s"
| "SA_field s RhsNuTilda = rhsNuTilda s"

definition SA_conservative :: "label \<Rightarrow> SA_member" where
  "SA_conservative ic = NuTilda"

definition SA_conservative_o :: "label \<Rightarrow> SA_member" where
  "SA_conservative_o ic = NuTilda_o"

definition SA_body :: "label \<Rightarrow> SA_member" where
  "SA_body ic = BodyNuTilda"

definition SA_rhs :: "label \<Rightarrow> SA_member" where
  "SA_rhs ic = RhsNuTilda"

subsection \<open>The two-equation closure \<^verbatim>\<open>myKappaOmega\<close>\<close>

record myKappaOmega =
  KW_tag :: word
  KW_size :: label
  kappa :: scalarField
  kappa_o :: scalarField
  omega :: scalarField
  omega_o :: scalarField
  residualKappa :: scalar
  residualOmega :: scalar
  maxResidualKappa :: scalar
  maxResidualOmega :: scalar
  rhsKappa :: scalarField
  rhsOmega :: scalarField
  lhsKappa :: scalarField
  lhsOmega :: scalarField
  dtsKappa :: scalarField
  dtsOmega :: scalarField
  bodyKappa :: scalarField
  bodyOmega :: scalarField

definition myKappaOmega_ctor :: "myNavierStokes \<Rightarrow> myKappaOmega" where
  "myKappaOmega_ctor inputNavierStokes =
     (let t = NS_time inputNavierStokes;
          n = mesh_V_size (NS_mesh inputNavierStokes);
          kappa0 = io_field t ''kappa'';
          omega0 = io_field t ''omega''
      in \<lparr> KW_tag = (case controlDict t ''turbulence'' of Some v \<Rightarrow> v
                      | None \<Rightarrow> ''KappaOmega''),
           KW_size = 2,
           kappa = Foam_max_field kappa0 KW_SMALL,
           kappa_o = kappa0,
           omega = Foam_max_field omega0 KW_SMALL,
           omega_o = omega0,
           residualKappa = - 1,
           residualOmega = - 1,
           maxResidualKappa = 1 / 10 ^ 16,
           maxResidualOmega = 1 / 10 ^ 16,
           rhsKappa = replicate n 0,
           rhsOmega = replicate n 0,
           lhsKappa = replicate n 0,
           lhsOmega = replicate n 0,
           dtsKappa = replicate n 0,
           dtsOmega = replicate n 0,
           bodyKappa = replicate n 0,
           bodyOmega = replicate n 0 \<rparr>)"

definition KW_residual :: "myKappaOmega \<Rightarrow> scalar" where
  "KW_residual k = Foam_max (residualKappa k) (residualOmega k)"

datatype KW_member =
  Kappa | Omega | Kappa_o | Omega_o | BodyKappa | BodyOmega | RhsKappa | RhsOmega

fun KW_field :: "myKappaOmega \<Rightarrow> KW_member \<Rightarrow> scalarField" where
  "KW_field k Kappa = kappa k"
| "KW_field k Omega = omega k"
| "KW_field k Kappa_o = kappa_o k"
| "KW_field k Omega_o = omega_o k"
| "KW_field k BodyKappa = bodyKappa k"
| "KW_field k BodyOmega = bodyOmega k"
| "KW_field k RhsKappa = rhsKappa k"
| "KW_field k RhsOmega = rhsOmega k"

definition KW_conservative :: "label \<Rightarrow> KW_member" where
  "KW_conservative ic = (if ic = 0 then Kappa else Omega)"

definition KW_conservative_o :: "label \<Rightarrow> KW_member" where
  "KW_conservative_o ic = (if ic = 0 then Kappa_o else Omega_o)"

definition KW_body :: "label \<Rightarrow> KW_member" where
  "KW_body ic = (if ic = 0 then BodyKappa else BodyOmega)"

definition KW_rhs :: "label \<Rightarrow> KW_member" where
  "KW_rhs ic = (if ic = 0 then RhsKappa else RhsOmega)"

subsection \<open>The abstract class \<^verbatim>\<open>MYTURBULENCE\<close> and its virtual methods\<close>

text \<open>An object behind a \<^verbatim>\<open>MYTURBULENCE*\<close> is of one of the two concrete classes,
  for its whole life.\<close>

datatype MYTURBULENCE = SA mySpalartAllmaras | KW myKappaOmega

fun MYTURBULENCE_residual :: "MYTURBULENCE \<Rightarrow> scalar" where
  "MYTURBULENCE_residual (SA s) = SA_residual s"
| "MYTURBULENCE_residual (KW k) = KW_residual k"

fun MYTURBULENCE_size :: "MYTURBULENCE \<Rightarrow> label" where
  "MYTURBULENCE_size (SA s) = SA_size s"
| "MYTURBULENCE_size (KW k) = KW_size k"

text \<open>
  The state-changing virtual methods. Their bodies are in \<^verbatim>\<open>mySpalartAllmaras.C\<close>
  and \<^verbatim>\<open>myKappaOmega.C\<close> or in the library, not in the headers, so the model takes
  them as a parameter: for each class, what a call does to the object itself and to
  the flow operator that the object holds by reference. A closure object refers to
  the flow operator and, through it, to the time database and the mesh (the members
  \<^verbatim>\<open>_NavierStokes\<close>, \<^verbatim>\<open>_time\<close>, \<^verbatim>\<open>_mesh\<close>, \<^verbatim>\<open>_thermodynamics\<close>); it has no
  reference to the wrapper that owns it. \<open>UpdateWallDistance\<close> is the call
  \<^verbatim>\<open>wallDistance().correct()\<close>; the constructors of \<open>call\<close> carry the arguments
  of the member function they stand for.
\<close>

datatype call =
    Advection
  | Diffusion
  | Source bool
  | Body bool
  | ResetRhs
  | ResetBody
  | SmoothRhs label scalar
  | Solve scalar label scalar
  | Store
  | Update
  | WallFunctions
  | ResetResidual
  | UpdateResidual word
  | BuildDTS label
  | CorrectBoundaryConditions
  | UpdateWallDistance

record bodies =
  SA_method :: "call \<Rightarrow> mySpalartAllmaras \<Rightarrow> myNavierStokes
                  \<Rightarrow> mySpalartAllmaras \<times> myNavierStokes"
  KW_method :: "call \<Rightarrow> myKappaOmega \<Rightarrow> myNavierStokes
                  \<Rightarrow> myKappaOmega \<times> myNavierStokes"

fun dispatch ::
  "bodies \<Rightarrow> call \<Rightarrow> MYTURBULENCE \<Rightarrow> myNavierStokes \<Rightarrow> MYTURBULENCE \<times> myNavierStokes"
where
  "dispatch b m (SA s) ns = (case SA_method b m s ns of (s', ns') \<Rightarrow> (SA s', ns'))"
| "dispatch b m (KW k) ns = (case KW_method b m k ns of (k', ns') \<Rightarrow> (KW k', ns'))"

subsection \<open>The program state\<close>

text \<open>The flow operator that the constructors receive by reference, and the heap
  of closure objects with the next address that \<^verbatim>\<open>new\<close> hands out.\<close>

record world =
  NavierStokes :: myNavierStokes
  heap :: "addr \<rightharpoonup> MYTURBULENCE"
  next_addr :: addr

definition new :: "MYTURBULENCE \<Rightarrow> world \<Rightarrow> addr \<times> world" where
  "new obj \<sigma> =
     (next_addr \<sigma>,
      \<sigma>\<lparr> heap := (heap \<sigma>)(next_addr \<sigma> \<mapsto> obj), next_addr := Suc (next_addr \<sigma>) \<rparr>)"

subsection \<open>The selector \<^verbatim>\<open>myTurbulence\<close>\<close>

record myTurbulence =
  T_tag :: word
  T_size :: label
  T_dummy :: scalarField
  T_turbulence :: "addr option"

text \<open>
  The constructor, with the value of the macro \<^verbatim>\<open>MG_TURON\<close> as a parameter: the
  line under \<^verbatim>\<open># if MG_TURON == 0\<close> is compiled only for the value \<open>0\<close>.
  A default-constructed \<^verbatim>\<open>scalarField\<close> is empty, which is what \<^verbatim>\<open>_dummy\<close> stays in
  the two branches that do not assign it.
\<close>

definition myTurbulence_ctor_mg :: "int \<Rightarrow> world \<Rightarrow> myTurbulence \<times> world" where
  "myTurbulence_ctor_mg mg \<sigma> =
     (let inputNavierStokes = NavierStokes \<sigma>;
          tag0 = ''off'';
          tag1 = (case controlDict (NS_time inputNavierStokes) ''turbulence'' of
                    Some v \<Rightarrow> v | None \<Rightarrow> tag0);
          tag2 = (if mg = 0 \<and> mesh_tag (NS_mesh inputNavierStokes) \<noteq> ''*''
                  then ''off'' else tag1)
      in if tag2 = ''SpalartAllmaras'' \<or> tag2 = ''SA'' then
           (case new (SA (mySpalartAllmaras_ctor inputNavierStokes)) \<sigma> of (a, \<sigma>') \<Rightarrow>
              (\<lparr> T_tag = tag2, T_size = 1, T_dummy = [], T_turbulence = Some a \<rparr>, \<sigma>'))
         else if tag2 = ''KappaOmega'' \<or> tag2 = ''KW'' then
           (case new (KW (myKappaOmega_ctor inputNavierStokes)) \<sigma> of (a, \<sigma>') \<Rightarrow>
              (\<lparr> T_tag = tag2, T_size = 2, T_dummy = [], T_turbulence = Some a \<rparr>, \<sigma>'))
         else
           (\<lparr> T_tag = ''off'', T_size = 0, T_dummy = replicate 1 0, T_turbulence = None \<rparr>,
            \<sigma>))"

definition myTurbulence_ctor :: "world \<Rightarrow> myTurbulence \<times> world" where
  "myTurbulence_ctor = myTurbulence_ctor_mg MG_TURON"

text \<open>The destructor; the second component lists the pointers handed to
  \<^verbatim>\<open>delete\<close>.\<close>

definition myTurbulence_dtor :: "myTurbulence \<Rightarrow> world \<Rightarrow> world \<times> addr option list" where
  "myTurbulence_dtor w \<sigma> =
     (if T_tag w \<noteq> ''off'' then
        (case T_turbulence w of
           None \<Rightarrow> (\<sigma>, [None])
         | Some a \<Rightarrow> (\<sigma>\<lparr> heap := (heap \<sigma>)(a := None) \<rparr>, [Some a]))
      else (\<sigma>, []))"

text \<open>\<^verbatim>\<open>_turbulence->\<close>: the object behind the pointer, \<open>None\<close> when the pointer
  is null or points to no live object (undefined behaviour in C++).\<close>

definition deref :: "myTurbulence \<Rightarrow> world \<Rightarrow> MYTURBULENCE option" where
  "deref w \<sigma> = (case T_turbulence w of None \<Rightarrow> None | Some a \<Rightarrow> heap \<sigma> a)"

text \<open>
  Every state-changing member function of the wrapper has the same body,
  \<^verbatim>\<open>if ( _tag != "off" ) _turbulence->m( args )\<close>. A call takes the wrapper and the
  state and returns both; \<open>None\<close> is the undefined behaviour of a call through a
  pointer without object.
\<close>

definition forward ::
  "bodies \<Rightarrow> call \<Rightarrow> myTurbulence \<times> world \<Rightarrow> (myTurbulence \<times> world) option"
where
  "forward b m = (\<lambda>(w, \<sigma>).
     if T_tag w \<noteq> ''off'' then
       (case T_turbulence w of
          None \<Rightarrow> None
        | Some a \<Rightarrow>
            (case heap \<sigma> a of
               None \<Rightarrow> None
             | Some obj \<Rightarrow>
                 (case dispatch b m obj (NavierStokes \<sigma>) of (obj', ns') \<Rightarrow>
                    Some (w, \<sigma>\<lparr> NavierStokes := ns', heap := (heap \<sigma>)(a \<mapsto> obj') \<rparr>))))
     else Some (w, \<sigma>))"

text \<open>A caller's sequence of calls.\<close>

fun run ::
  "bodies \<Rightarrow> call list \<Rightarrow> myTurbulence \<times> world \<Rightarrow> (myTurbulence \<times> world) option"
where
  "run b [] s = Some s"
| "run b (m # ms) s = (case forward b m s of None \<Rightarrow> None | Some s' \<Rightarrow> run b ms s')"

definition tag :: "myTurbulence \<Rightarrow> word" where
  "tag w = T_tag w"

definition size_T :: "myTurbulence \<Rightarrow> label" where
  "size_T w = T_size w"

definition residual :: "myTurbulence \<Rightarrow> world \<Rightarrow> scalar option" where
  "residual w \<sigma> =
     (if T_tag w \<noteq> ''off'' then map_option MYTURBULENCE_residual (deref w \<sigma>)
      else Some (- 1))"

text \<open>What a \<^verbatim>\<open>scalarField&\<close> returned by the wrapper designates: the wrapper's own
  \<^verbatim>\<open>_dummy\<close>, or a member array of the closure object at an address.\<close>

datatype field_ref = Dummy | SA_ref addr SA_member | KW_ref addr KW_member

fun read_ref :: "myTurbulence \<Rightarrow> world \<Rightarrow> field_ref \<Rightarrow> scalarField option" where
  "read_ref w \<sigma> Dummy = Some (T_dummy w)"
| "read_ref w \<sigma> (SA_ref a f) =
     (case heap \<sigma> a of Some (SA s) \<Rightarrow> Some (SA_field s f) | _ \<Rightarrow> None)"
| "read_ref w \<sigma> (KW_ref a f) =
     (case heap \<sigma> a of Some (KW k) \<Rightarrow> Some (KW_field k f) | _ \<Rightarrow> None)"

text \<open>The virtual call \<^verbatim>\<open>_turbulence->acc( ic )\<close> for the four accessors, given what
  each class does.\<close>

definition virtual_accessor ::
  "(label \<Rightarrow> SA_member) \<Rightarrow> (label \<Rightarrow> KW_member) \<Rightarrow> myTurbulence \<Rightarrow> world \<Rightarrow> label
     \<Rightarrow> field_ref option"
where
  "virtual_accessor sa kw w \<sigma> ic =
     (case T_turbulence w of
        None \<Rightarrow> None
      | Some a \<Rightarrow>
          (case heap \<sigma> a of
             None \<Rightarrow> None
           | Some (SA s) \<Rightarrow> Some (SA_ref a (sa ic))
           | Some (KW k) \<Rightarrow> Some (KW_ref a (kw ic))))"

definition conservative :: "myTurbulence \<Rightarrow> world \<Rightarrow> label \<Rightarrow> field_ref option" where
  "conservative w \<sigma> ic =
     (if T_tag w \<noteq> ''off'' then virtual_accessor SA_conservative KW_conservative w \<sigma> ic
      else Some Dummy)"

definition conservative_o :: "myTurbulence \<Rightarrow> world \<Rightarrow> label \<Rightarrow> field_ref option" where
  "conservative_o w \<sigma> ic =
     (if T_tag w \<noteq> ''off'' then virtual_accessor SA_conservative_o KW_conservative_o w \<sigma> ic
      else Some Dummy)"

definition body :: "myTurbulence \<Rightarrow> world \<Rightarrow> label \<Rightarrow> field_ref option" where
  "body w \<sigma> ic =
     (if T_tag w \<noteq> ''off'' then virtual_accessor SA_body KW_body w \<sigma> ic
      else Some Dummy)"

definition rhs :: "myTurbulence \<Rightarrow> world \<Rightarrow> label \<Rightarrow> field_ref option" where
  "rhs w \<sigma> ic =
     (if T_tag w \<noteq> ''off'' then virtual_accessor SA_rhs KW_rhs w \<sigma> ic
      else Some Dummy)"

subsection \<open>The selector \<^verbatim>\<open>mySolver\<close>\<close>

text \<open>
  The classes that inherit \<^verbatim>\<open>MYSOLVER\<close> in this build are \<^verbatim>\<open>myTimeStepping\<close> and
  \<^verbatim>\<open>myImplicit\<close> (the include of \<^verbatim>\<open>myMultiGrid.H\<close> is commented out); an object is
  given by its class and the arguments of its constructor. The constructor of
  \<^verbatim>\<open>mySolver\<close> also returns the shell commands it passes to \<^verbatim>\<open>system\<close>;
  \<open>nProcs\<close> is \<^verbatim>\<open>Pstream::nProcs()\<close>.
\<close>

datatype MYSOLVER = myTimeStepping Time myMesh | myImplicit Time myMesh

fun class_name :: "MYSOLVER \<Rightarrow> string" where
  "class_name (myTimeStepping t m) = ''myTimeStepping''"
| "class_name (myImplicit t m) = ''myImplicit''"

record mySolver =
  S_tag :: word
  S_solver :: MYSOLVER

definition mySolver_ctor :: "nat \<Rightarrow> Time \<Rightarrow> myMesh \<Rightarrow> mySolver \<times> string list" where
  "mySolver_ctor nProcs inputTime inputMesh =
     (let tag1 = (case controlDict inputTime ''solver'' of
                    Some v \<Rightarrow> v | None \<Rightarrow> ''default'');
          clear = (case controlDict inputTime ''clear'' of
                    Some v \<Rightarrow> v | None \<Rightarrow> ''off'');
          parallel = (if nProcs > 1 then ''/..'' else '''');
          filename = path inputTime @ parallel @ ''/Log/*'';
          commands = (if clear = ''all'' then [''rm '' @ filename @ '' > /dev/null 2>&1'']
                      else [])
      in (\<lparr> S_tag = tag1, S_solver = myTimeStepping inputTime inputMesh \<rparr>, commands))"

subsection \<open>Auxiliary notions for the proofs\<close>

text \<open>The wrapper is consistent with a state: an "off" wrapper holds the null
  pointer and no equation; any other tag comes with a live object of the class and
  the equation count that the constructor pairs with it.\<close>

definition consistent :: "myTurbulence \<Rightarrow> world \<Rightarrow> bool" where
  "consistent w \<sigma> =
     (if T_tag w = ''off'' then T_turbulence w = None \<and> T_size w = 0
      else (case deref w \<sigma> of
              None \<Rightarrow> False
            | Some (SA s) \<Rightarrow> T_size w = 1
            | Some (KW k) \<Rightarrow> T_size w = 2))"

text \<open>The value of \<^verbatim>\<open>_tag\<close> in the constructor of \<^verbatim>\<open>myTurbulence\<close> when the
  chain of comparisons starts: the dictionary entry, or "off" without one or under the
  multigrid override.\<close>

definition configured_tag :: "int \<Rightarrow> world \<Rightarrow> word" where
  "configured_tag mg \<sigma> =
     (if mg = 0 \<and> mesh_tag (NS_mesh (NavierStokes \<sigma>)) \<noteq> ''*'' then ''off''
      else (case controlDict (NS_time (NavierStokes \<sigma>)) ''turbulence'' of
              Some v \<Rightarrow> v | None \<Rightarrow> ''off''))"

text \<open>A reference designates an array of the object that the wrapper owns.\<close>

fun own_ref :: "myTurbulence \<Rightarrow> field_ref \<Rightarrow> bool" where
  "own_ref w Dummy = False"
| "own_ref w (SA_ref a f) = (T_turbulence w = Some a)"
| "own_ref w (KW_ref a f) = (T_turbulence w = Some a)"

subsection \<open>Sample inputs\<close>

text \<open>A case with three cells whose persisted closure fields hold values below the
  lower bound, for a given control dictionary and mesh tag; and sample bodies of the
  virtual methods (reset, store and residual update act on the object, every other
  call leaves it as it is).\<close>

definition sample_Time :: "(word \<rightharpoonup> word) \<Rightarrow> Time" where
  "sample_Time d =
     \<lparr> controlDict = d, path = ''/case'',
       io_field = (\<lambda>name. if name = ''nuTilda'' then [0, 3, - 2]
                           else if name = ''kappa'' then [1 / 10 ^ 12, 5, 0]
                           else [7, - 1, 1 / 10 ^ 10]) \<rparr>"

definition sample_mesh :: "word \<Rightarrow> myMesh" where
  "sample_mesh tg = \<lparr> mesh_id = (if tg = ''*'' then 0 else 1), mesh_tag = tg, mesh_V_size = 3 \<rparr>"

definition sample_world :: "(word \<rightharpoonup> word) \<Rightarrow> word \<Rightarrow> world" where
  "sample_world d tg =
     \<lparr> NavierStokes = myNavierStokes_ctor (sample_Time d) (sample_mesh tg),
       heap = Map.empty, next_addr = 0 \<rparr>"

definition sample_bodies :: bodies where
  "sample_bodies =
     \<lparr> SA_method = (\<lambda>m s ns. case m of
          ResetResidual \<Rightarrow> (s\<lparr> residualNuTilda := - 1 \<rparr>, ns)
        | UpdateResidual n \<Rightarrow> (s\<lparr> residualNuTilda := 1 / 2 \<rparr>, ns)
        | Store \<Rightarrow> (s\<lparr> nuTilda_o := nuTilda s \<rparr>, ns)
        | _ \<Rightarrow> (s, ns)),
       KW_method = (\<lambda>m k ns. case m of
          ResetResidual \<Rightarrow> (k\<lparr> residualKappa := - 1, residualOmega := - 1 \<rparr>, ns)
        | UpdateResidual n \<Rightarrow> (k\<lparr> residualKappa := 1 / 2, residualOmega := 1 / 4 \<rparr>, ns)
        | Store \<Rightarrow> (k\<lparr> kappa_o := kappa k, omega_o := omega k \<rparr>, ns)
        | _ \<Rightarrow> (k, ns)) \<rparr>"

section \<open>Properties\<close>

subsection \<open>Forwarding, construction and consistency\<close>

lemma forward_off: "T_tag w = ''off'' \<Longrightarrow> forward b m (w, \<sigma>) = Some (w, \<sigma>)"
  by (simp add: forward_def)

lemma run_off: "T_tag w = ''off'' \<Longrightarrow> run b ms (w, \<sigma>) = Some (w, \<sigma>)"
  by (induction ms) (simp_all add: forward_off)

lemma forward_wrapper: "forward b m (w, \<sigma>) = Some (w', \<sigma>') \<Longrightarrow> w' = w"
  by (simp add: forward_def split: if_splits option.splits prod.splits)

lemma run_wrapper: "run b ms (w, \<sigma>) = Some (w', \<sigma>') \<Longrightarrow> w' = w"
proof (induction ms arbitrary: \<sigma>)
  case Nil
  then show ?case by simp
next
  case (Cons m ms)
  then obtain w1 \<sigma>1 where f: "forward b m (w, \<sigma>) = Some (w1, \<sigma>1)"
    and r: "run b ms (w1, \<sigma>1) = Some (w', \<sigma>')"
    by (cases "forward b m (w, \<sigma>)") auto
  from f have "w1 = w" by (rule forward_wrapper)
  with r Cons.IH show ?case by blast
qed

lemma ctor_SA:
  assumes "configured_tag mg \<sigma> = ''SpalartAllmaras'' \<or> configured_tag mg \<sigma> = ''SA''"
  shows "myTurbulence_ctor_mg mg \<sigma> =
      (\<lparr> T_tag = configured_tag mg \<sigma>, T_size = 1, T_dummy = [],
         T_turbulence = Some (next_addr \<sigma>) \<rparr>,
       \<sigma>\<lparr> heap := (heap \<sigma>)(next_addr \<sigma> \<mapsto> SA (mySpalartAllmaras_ctor (NavierStokes \<sigma>))),
          next_addr := Suc (next_addr \<sigma>) \<rparr>)"
  using assms unfolding myTurbulence_ctor_mg_def configured_tag_def new_def Let_def
  by (simp split: if_splits)

lemma ctor_KW:
  assumes "configured_tag mg \<sigma> = ''KappaOmega'' \<or> configured_tag mg \<sigma> = ''KW''"
  shows "myTurbulence_ctor_mg mg \<sigma> =
      (\<lparr> T_tag = configured_tag mg \<sigma>, T_size = 2, T_dummy = [],
         T_turbulence = Some (next_addr \<sigma>) \<rparr>,
       \<sigma>\<lparr> heap := (heap \<sigma>)(next_addr \<sigma> \<mapsto> KW (myKappaOmega_ctor (NavierStokes \<sigma>))),
          next_addr := Suc (next_addr \<sigma>) \<rparr>)"
  using assms unfolding myTurbulence_ctor_mg_def configured_tag_def new_def Let_def
  by (auto split: if_splits)

lemma ctor_off:
  assumes "configured_tag mg \<sigma> \<notin> {''SpalartAllmaras'', ''SA'', ''KappaOmega'', ''KW''}"
  shows "myTurbulence_ctor_mg mg \<sigma> =
      (\<lparr> T_tag = ''off'', T_size = 0, T_dummy = [0], T_turbulence = None \<rparr>, \<sigma>)"
  using assms unfolding myTurbulence_ctor_mg_def configured_tag_def new_def Let_def
  by (simp split: if_splits)

lemma ctor_consistent:
  assumes "myTurbulence_ctor_mg mg \<sigma> = (w, \<sigma>')"
  shows "consistent w \<sigma>'"
proof -
  consider (sa) "configured_tag mg \<sigma> = ''SpalartAllmaras'' \<or> configured_tag mg \<sigma> = ''SA''"
    | (kw) "configured_tag mg \<sigma> = ''KappaOmega'' \<or> configured_tag mg \<sigma> = ''KW''"
    | (off) "configured_tag mg \<sigma> \<notin> {''SpalartAllmaras'', ''SA'', ''KappaOmega'', ''KW''}"
    by blast
  then show ?thesis
  proof cases
    case sa
    from ctor_SA [OF sa] assms sa show ?thesis
      by (auto simp: consistent_def deref_def)
  next
    case kw
    from ctor_KW [OF kw] assms kw show ?thesis
      by (auto simp: consistent_def deref_def)
  next
    case off
    from ctor_off [OF off] assms show ?thesis
      by (auto simp: consistent_def deref_def)
  qed
qed

lemma forward_consistent:
  assumes "consistent w \<sigma>"
  shows "\<exists>\<sigma>'. forward b m (w, \<sigma>) = Some (w, \<sigma>') \<and> consistent w \<sigma>'"
proof (cases "T_tag w = ''off''")
  case True
  with assms show ?thesis by (simp add: forward_off)
next
  case False
  with assms obtain a obj where a: "T_turbulence w = Some a" and h: "heap \<sigma> a = Some obj"
    by (cases "T_turbulence w"; cases "deref w \<sigma>") (simp_all add: consistent_def deref_def)
  show ?thesis
  proof (cases obj)
    case (SA s)
    obtain s' ns' where d: "SA_method b m s (NavierStokes \<sigma>) = (s', ns')"
      by (cases "SA_method b m s (NavierStokes \<sigma>)")
    from False a h assms SA d show ?thesis
      by (simp add: forward_def consistent_def deref_def)
  next
    case (KW k)
    obtain k' ns' where d: "KW_method b m k (NavierStokes \<sigma>) = (k', ns')"
      by (cases "KW_method b m k (NavierStokes \<sigma>)")
    from False a h assms KW d show ?thesis
      by (simp add: forward_def consistent_def deref_def)
  qed
qed

lemma run_consistent:
  "consistent w \<sigma> \<Longrightarrow> \<exists>\<sigma>'. run b ms (w, \<sigma>) = Some (w, \<sigma>') \<and> consistent w \<sigma>'"
proof (induction ms arbitrary: \<sigma>)
  case Nil
  then show ?case by simp
next
  case (Cons m ms)
  from forward_consistent [OF Cons.prems] obtain \<sigma>1
    where f: "forward b m (w, \<sigma>) = Some (w, \<sigma>1)" and c: "consistent w \<sigma>1" by blast
  from Cons.IH [OF c] f show ?case by simp
qed

lemma accessor_active:
  assumes "consistent w \<sigma>" and "T_tag w \<noteq> ''off''"
  shows "\<exists>r. virtual_accessor sa kw w \<sigma> ic = Some r \<and> own_ref w r
              \<and> read_ref w \<sigma> r \<noteq> None"
proof -
  from assms obtain a obj where a: "T_turbulence w = Some a" and h: "heap \<sigma> a = Some obj"
    by (cases "T_turbulence w"; cases "deref w \<sigma>") (simp_all add: consistent_def deref_def)
  show ?thesis
    by (cases obj) (simp_all add: virtual_accessor_def a h)
qed

lemma configured_tag_shipped:
  "configured_tag MG_TURON \<sigma> =
     (case controlDict (NS_time (NavierStokes \<sigma>)) ''turbulence'' of
        Some v \<Rightarrow> v | None \<Rightarrow> ''off'')"
  by (simp add: configured_tag_def MG_TURON_def)

lemma Foam_max_field_lower: "x \<in> set (Foam_max_field f s) \<Longrightarrow> s \<le> x"
  by (auto simp: Foam_max_field_def Foam_max_def)

lemma Foam_max_field_max: "Foam_max_field f s = map (\<lambda>x. max x s) f"
  by (auto simp: Foam_max_field_def Foam_max_def max_def)

lemmas sample_defs = sample_world_def sample_Time_def sample_mesh_def
  myNavierStokes_ctor_def Let_def

lemma sample_ctor_KW:
  "myTurbulence_ctor (sample_world [''turbulence'' \<mapsto> ''KW''] ''*'')
     = (\<lparr> T_tag = ''KW'', T_size = 2, T_dummy = [], T_turbulence = Some 0 \<rparr>,
        (sample_world [''turbulence'' \<mapsto> ''KW''] ''*'')
          \<lparr> heap := [0 \<mapsto> KW (myKappaOmega_ctor
                (NavierStokes (sample_world [''turbulence'' \<mapsto> ''KW''] ''*'')))],
            next_addr := Suc 0 \<rparr>)"
proof -
  have c: "configured_tag MG_TURON (sample_world [''turbulence'' \<mapsto> ''KW''] ''*'') = ''KW''"
    by (simp add: configured_tag_shipped sample_defs)
  have n: "next_addr (sample_world [''turbulence'' \<mapsto> ''KW''] ''*'') = 0"
    "heap (sample_world [''turbulence'' \<mapsto> ''KW''] ''*'') = Map.empty"
    by (simp_all add: sample_world_def)
  from c have "configured_tag MG_TURON (sample_world [''turbulence'' \<mapsto> ''KW''] ''*'')
      = ''KappaOmega'' \<or> configured_tag MG_TURON (sample_world [''turbulence'' \<mapsto> ''KW''] ''*'')
      = ''KW''" by simp
  from ctor_KW [OF this] show ?thesis
    unfolding myTurbulence_ctor_def c n by simp
qed

lemma sample_run_changes_state:
  "\<exists>\<sigma>2. run sample_bodies [UpdateResidual ''none'']
          (myTurbulence_ctor (sample_world [''turbulence'' \<mapsto> ''KW''] ''*''))
        = Some (fst (myTurbulence_ctor (sample_world [''turbulence'' \<mapsto> ''KW''] ''*'')), \<sigma>2)
      \<and> residual (fst (myTurbulence_ctor (sample_world [''turbulence'' \<mapsto> ''KW''] ''*''))) \<sigma>2
          = Some (1 / 2)"
  unfolding sample_ctor_KW
  by (simp add: forward_def sample_bodies_def residual_def deref_def KW_residual_def
      Foam_max_def)

lemma sample_solver_commands:
  "snd (mySolver_ctor 4 (sample_Time [''solver'' \<mapsto> ''Implicit'', ''clear'' \<mapsto> ''all''])
       (sample_mesh ''*'')) = [''rm /case/../Log/* > /dev/null 2>&1'']"
  by (simp add: mySolver_ctor_def sample_Time_def Let_def)

subsection \<open>The claims\<close>

text \<open>
  Claim C1. When the control dictionary has no recognised turbulence tag (no entry, or
  an entry other than "SpalartAllmaras", "SA", "KappaOmega", "KW"), the constructed
  wrapper is Off and the constructor leaves the state as it was. In that state every
  forwarded call, with any arguments and whatever the bodies of the closures' methods
  are, returns the wrapper and the state unchanged, and so does every sequence of such
  calls; \<^verbatim>\<open>residual()\<close> is the sentinel \<open>- 1\<close>; and \<^verbatim>\<open>conservative(ic)\<close>,
  \<^verbatim>\<open>conservative_o(ic)\<close>, \<^verbatim>\<open>body(ic)\<close> and \<^verbatim>\<open>rhs(ic)\<close> all return, for every index, the
  one reference to the wrapper's dummy array, whose content is the single entry \<open>0\<close>.
\<close>

theorem off_state_noop:
  assumes "controlDict (NS_time (NavierStokes \<sigma>)) ''turbulence''
             \<notin> {Some ''SpalartAllmaras'', Some ''SA'', Some ''KappaOmega'', Some ''KW''}"
    and "myTurbulence_ctor \<sigma> = (w, \<sigma>')"
  shows "tag w = ''off'' \<and> \<sigma>' = \<sigma>
     \<and> forward b m (w, \<sigma>') = Some (w, \<sigma>')
     \<and> run b ms (w, \<sigma>') = Some (w, \<sigma>')
     \<and> residual w \<sigma>' = Some (- 1)
     \<and> conservative w \<sigma>' ic = Some Dummy
     \<and> conservative_o w \<sigma>' ic = Some Dummy
     \<and> body w \<sigma>' ic = Some Dummy
     \<and> rhs w \<sigma>' ic = Some Dummy
     \<and> read_ref w \<sigma>' Dummy = Some [0]"
proof -
  from assms(1) have "configured_tag MG_TURON \<sigma>
      \<notin> {''SpalartAllmaras'', ''SA'', ''KappaOmega'', ''KW''}"
    by (auto simp: configured_tag_shipped split: option.splits)
  from ctor_off [OF this] assms(2)
  have w: "w = \<lparr> T_tag = ''off'', T_size = 0, T_dummy = [0], T_turbulence = None \<rparr>"
    and s: "\<sigma>' = \<sigma>"
    by (simp_all add: myTurbulence_ctor_def)
  from w have off: "T_tag w = ''off''" by simp
  from w have d: "T_dummy w = [0]" by simp
  from off d s show ?thesis
    by (simp add: tag_def forward_off run_off residual_def conservative_def
        conservative_o_def body_def rhs_def)
qed

theorem off_state_noop_witness:
  "controlDict (NS_time (NavierStokes (sample_world [''turbulence'' \<mapsto> ''laminar''] ''*'')))
       ''turbulence''
     \<notin> {Some ''SpalartAllmaras'', Some ''SA'', Some ''KappaOmega'', Some ''KW''}
   \<and> myTurbulence_ctor (sample_world [''turbulence'' \<mapsto> ''laminar''] ''*'')
       = (\<lparr> T_tag = ''off'', T_size = 0, T_dummy = [0], T_turbulence = None \<rparr>,
          sample_world [''turbulence'' \<mapsto> ''laminar''] ''*'')
   \<and> run sample_bodies [Advection, Diffusion, Solve 1 2 (1 / 2), UpdateResidual ''none'', Store]
        (\<lparr> T_tag = ''off'', T_size = 0, T_dummy = [0], T_turbulence = None \<rparr>,
         sample_world [''turbulence'' \<mapsto> ''laminar''] ''*'')
       = Some (\<lparr> T_tag = ''off'', T_size = 0, T_dummy = [0], T_turbulence = None \<rparr>,
               sample_world [''turbulence'' \<mapsto> ''laminar''] ''*'')
   \<and> residual \<lparr> T_tag = ''off'', T_size = 0, T_dummy = [0], T_turbulence = None \<rparr>
        (sample_world [''turbulence'' \<mapsto> ''laminar''] ''*'') = Some (- 1)
   \<and> rhs \<lparr> T_tag = ''off'', T_size = 0, T_dummy = [0], T_turbulence = None \<rparr>
        (sample_world [''turbulence'' \<mapsto> ''laminar''] ''*'') 7 = Some Dummy"
proof -
  let ?\<sigma> = "sample_world [''turbulence'' \<mapsto> ''laminar''] ''*''"
  let ?w = "\<lparr> T_tag = ''off'', T_size = 0, T_dummy = [0], T_turbulence = None \<rparr>"
  have h1: "controlDict (NS_time (NavierStokes ?\<sigma>)) ''turbulence''
     \<notin> {Some ''SpalartAllmaras'', Some ''SA'', Some ''KappaOmega'', Some ''KW''}"
    by (simp add: sample_defs)
  have h2: "myTurbulence_ctor ?\<sigma> = (?w, ?\<sigma>)"
    by (simp add: myTurbulence_ctor_def myTurbulence_ctor_mg_def MG_TURON_def sample_defs)
  from off_state_noop [OF h1 h2, of sample_bodies Advection
      "[Advection, Diffusion, Solve 1 2 (1 / 2), UpdateResidual ''none'', Store]" 7] h1 h2
  show ?thesis by blast
qed

text \<open>
  Claim C2. Construction of the wrapper in the shipped build: with the tag
  "SpalartAllmaras" or "SA" a \<^verbatim>\<open>mySpalartAllmaras\<close> object is allocated (the pointer is
  the fresh address and the object behind it is the one that class's constructor
  builds) and \<^verbatim>\<open>size()\<close> is 1; with "KappaOmega" or "KW" a \<^verbatim>\<open>myKappaOmega\<close> object
  is allocated and \<^verbatim>\<open>size()\<close> is 2; with any other tag, or without the entry, the
  wrapper is Off: \<^verbatim>\<open>tag()\<close> is "off", \<^verbatim>\<open>size()\<close> is 0, the pointer is null and
  nothing is allocated. The constructor is a total function: no input makes it abort.
\<close>

theorem myTurbulence_ctor_selection:
  assumes "myTurbulence_ctor \<sigma> = (w, \<sigma>')"
  shows "(controlDict (NS_time (NavierStokes \<sigma>)) ''turbulence''
            \<in> {Some ''SpalartAllmaras'', Some ''SA''} \<longrightarrow>
          size_T w = 1 \<and> Some (tag w) = controlDict (NS_time (NavierStokes \<sigma>)) ''turbulence''
          \<and> T_turbulence w = Some (next_addr \<sigma>)
          \<and> deref w \<sigma>' = Some (SA (mySpalartAllmaras_ctor (NavierStokes \<sigma>))))
     \<and> (controlDict (NS_time (NavierStokes \<sigma>)) ''turbulence''
            \<in> {Some ''KappaOmega'', Some ''KW''} \<longrightarrow>
          size_T w = 2 \<and> Some (tag w) = controlDict (NS_time (NavierStokes \<sigma>)) ''turbulence''
          \<and> T_turbulence w = Some (next_addr \<sigma>)
          \<and> deref w \<sigma>' = Some (KW (myKappaOmega_ctor (NavierStokes \<sigma>))))
     \<and> (controlDict (NS_time (NavierStokes \<sigma>)) ''turbulence''
            \<notin> {Some ''SpalartAllmaras'', Some ''SA'', Some ''KappaOmega'', Some ''KW''} \<longrightarrow>
          tag w = ''off'' \<and> size_T w = 0 \<and> T_turbulence w = None \<and> \<sigma>' = \<sigma>)"
proof (intro conjI impI)
  assume "controlDict (NS_time (NavierStokes \<sigma>)) ''turbulence''
            \<in> {Some ''SpalartAllmaras'', Some ''SA''}"
  then have c: "configured_tag MG_TURON \<sigma> = ''SpalartAllmaras''
      \<or> configured_tag MG_TURON \<sigma> = ''SA''"
    and e: "controlDict (NS_time (NavierStokes \<sigma>)) ''turbulence''
      = Some (configured_tag MG_TURON \<sigma>)"
    by (auto simp: configured_tag_shipped)
  from ctor_SA [OF c] assms e
  show "size_T w = 1" "Some (tag w) = controlDict (NS_time (NavierStokes \<sigma>)) ''turbulence''"
    "T_turbulence w = Some (next_addr \<sigma>)"
    "deref w \<sigma>' = Some (SA (mySpalartAllmaras_ctor (NavierStokes \<sigma>)))"
    by (auto simp: myTurbulence_ctor_def size_T_def tag_def deref_def)
next
  assume "controlDict (NS_time (NavierStokes \<sigma>)) ''turbulence''
            \<in> {Some ''KappaOmega'', Some ''KW''}"
  then have c: "configured_tag MG_TURON \<sigma> = ''KappaOmega''
      \<or> configured_tag MG_TURON \<sigma> = ''KW''"
    and e: "controlDict (NS_time (NavierStokes \<sigma>)) ''turbulence''
      = Some (configured_tag MG_TURON \<sigma>)"
    by (auto simp: configured_tag_shipped)
  from ctor_KW [OF c] assms e
  show "size_T w = 2" "Some (tag w) = controlDict (NS_time (NavierStokes \<sigma>)) ''turbulence''"
    "T_turbulence w = Some (next_addr \<sigma>)"
    "deref w \<sigma>' = Some (KW (myKappaOmega_ctor (NavierStokes \<sigma>)))"
    by (auto simp: myTurbulence_ctor_def size_T_def tag_def deref_def)
next
  assume "controlDict (NS_time (NavierStokes \<sigma>)) ''turbulence''
            \<notin> {Some ''SpalartAllmaras'', Some ''SA'', Some ''KappaOmega'', Some ''KW''}"
  then have "configured_tag MG_TURON \<sigma>
      \<notin> {''SpalartAllmaras'', ''SA'', ''KappaOmega'', ''KW''}"
    by (auto simp: configured_tag_shipped split: option.splits)
  from ctor_off [OF this] assms
  show "tag w = ''off''" "size_T w = 0" "T_turbulence w = None" "\<sigma>' = \<sigma>"
    by (auto simp: myTurbulence_ctor_def size_T_def tag_def)
qed

theorem myTurbulence_ctor_selection_witness:
  "size_T (fst (myTurbulence_ctor (sample_world [''turbulence'' \<mapsto> ''SA''] ''*''))) = 1
   \<and> tag (fst (myTurbulence_ctor (sample_world [''turbulence'' \<mapsto> ''SA''] ''*''))) = ''SA''
   \<and> size_T (fst (myTurbulence_ctor (sample_world [''turbulence'' \<mapsto> ''KappaOmega''] ''*''))) = 2
   \<and> tag (fst (myTurbulence_ctor (sample_world [''turbulence'' \<mapsto> ''KappaOmega''] ''*'')))
       = ''KappaOmega''
   \<and> size_T (fst (myTurbulence_ctor (sample_world Map.empty ''*''))) = 0
   \<and> tag (fst (myTurbulence_ctor (sample_world Map.empty ''*''))) = ''off''
   \<and> T_turbulence (fst (myTurbulence_ctor (sample_world Map.empty ''*''))) = None"
proof -
  let ?s1 = "sample_world [''turbulence'' \<mapsto> ''SA''] ''*''"
  let ?s2 = "sample_world [''turbulence'' \<mapsto> ''KappaOmega''] ''*''"
  let ?s3 = "sample_world Map.empty ''*''"
  have e1: "controlDict (NS_time (NavierStokes ?s1)) ''turbulence'' = Some ''SA''"
    by (simp add: sample_defs)
  have e2: "controlDict (NS_time (NavierStokes ?s2)) ''turbulence'' = Some ''KappaOmega''"
    by (simp add: sample_defs)
  have e3: "controlDict (NS_time (NavierStokes ?s3)) ''turbulence'' = None"
    by (simp add: sample_defs)
  have p: "myTurbulence_ctor s = (fst (myTurbulence_ctor s), snd (myTurbulence_ctor s))" for s
    by simp
  from myTurbulence_ctor_selection [OF p [of ?s1]] myTurbulence_ctor_selection [OF p [of ?s2]]
    myTurbulence_ctor_selection [OF p [of ?s3]]
  show ?thesis
    unfolding e1 e2 e3 by simp
qed

text \<open>
  Claim C3 as stated fails: with the "solver" entries "Implicit" and "MultiGrid", and
  without the entry, three different tags are stored and the class allocated is the
  same, \<^verbatim>\<open>myTimeStepping\<close>.
\<close>

theorem solver_tag_ignored_counterexample:
  "S_tag (fst (mySolver_ctor 1 (sample_Time [''solver'' \<mapsto> ''Implicit'']) (sample_mesh ''*'')))
     = ''Implicit''
   \<and> S_tag (fst (mySolver_ctor 1 (sample_Time [''solver'' \<mapsto> ''MultiGrid'']) (sample_mesh ''*'')))
     = ''MultiGrid''
   \<and> S_tag (fst (mySolver_ctor 1 (sample_Time Map.empty) (sample_mesh ''*''))) = ''default''
   \<and> class_name (S_solver (fst (mySolver_ctor 1 (sample_Time [''solver'' \<mapsto> ''Implicit''])
        (sample_mesh ''*'')))) = ''myTimeStepping''
   \<and> class_name (S_solver (fst (mySolver_ctor 1 (sample_Time [''solver'' \<mapsto> ''MultiGrid''])
        (sample_mesh ''*'')))) = ''myTimeStepping''
   \<and> class_name (S_solver (fst (mySolver_ctor 1 (sample_Time Map.empty) (sample_mesh ''*''))))
     = ''myTimeStepping''"
  by (simp add: mySolver_ctor_def Let_def sample_Time_def)

text \<open>
  Claim C3, as amended. The constructor of \<^verbatim>\<open>mySolver\<close> allocates exactly one solver
  object, and it is a \<^verbatim>\<open>myTimeStepping\<close> built from the constructor's arguments
  whatever the control dictionary says; the "solver" entry (or "default" without it)
  is only stored as the tag.
\<close>

theorem solver_always_time_stepping:
  "S_solver (fst (mySolver_ctor nProcs t m)) = myTimeStepping t m
   \<and> class_name (S_solver (fst (mySolver_ctor nProcs t m))) = ''myTimeStepping''
   \<and> S_tag (fst (mySolver_ctor nProcs t m))
       = (case controlDict t ''solver'' of Some v \<Rightarrow> v | None \<Rightarrow> ''default'')"
  by (simp add: mySolver_ctor_def Let_def)

theorem solver_always_time_stepping_witness:
  "S_solver (fst (mySolver_ctor 4 (sample_Time [''solver'' \<mapsto> ''Implicit'', ''clear'' \<mapsto> ''all''])
       (sample_mesh ''*'')))
     = myTimeStepping (sample_Time [''solver'' \<mapsto> ''Implicit'', ''clear'' \<mapsto> ''all''])
         (sample_mesh ''*'')
   \<and> S_tag (fst (mySolver_ctor 4 (sample_Time [''solver'' \<mapsto> ''Implicit'', ''clear'' \<mapsto> ''all''])
       (sample_mesh ''*''))) = ''Implicit''"
  using solver_always_time_stepping [of 4
      "sample_Time [''solver'' \<mapsto> ''Implicit'', ''clear'' \<mapsto> ''all'']" "sample_mesh ''*''"]
  by (simp add: sample_Time_def)

text \<open>
  Claim C4. For the Kappa-Omega closure \<^verbatim>\<open>residual()\<close> is the maximum of the kappa
  residual and the omega residual (it is one of the two and no smaller than either);
  for the Spalart-Allmaras closure it is the residual of the one equation. The same
  holds through the virtual call.
\<close>

theorem combined_residual:
  "KW_residual k = max (residualKappa k) (residualOmega k)
   \<and> residualKappa k \<le> KW_residual k \<and> residualOmega k \<le> KW_residual k
   \<and> (KW_residual k = residualKappa k \<or> KW_residual k = residualOmega k)
   \<and> MYTURBULENCE_residual (KW k) = max (residualKappa k) (residualOmega k)
   \<and> SA_residual s = residualNuTilda s
   \<and> MYTURBULENCE_residual (SA s) = residualNuTilda s"
  by (simp add: KW_residual_def SA_residual_def Foam_max_def max_def)

theorem combined_residual_witness:
  "KW_residual ((myKappaOmega_ctor (NavierStokes (sample_world Map.empty ''*'')))
       \<lparr> residualKappa := 1 / 4, residualOmega := 1 / 2 \<rparr>) = 1 / 2
   \<and> SA_residual ((mySpalartAllmaras_ctor (NavierStokes (sample_world Map.empty ''*'')))
       \<lparr> residualNuTilda := 1 / 8 \<rparr>) = 1 / 8"
  using combined_residual [of "(myKappaOmega_ctor (NavierStokes (sample_world Map.empty ''*'')))
       \<lparr> residualKappa := 1 / 4, residualOmega := 1 / 2 \<rparr>"
      "(mySpalartAllmaras_ctor (NavierStokes (sample_world Map.empty ''*'')))
       \<lparr> residualNuTilda := 1 / 8 \<rparr>"]
  by simp

text \<open>
  Claim C5. Right after construction every per-equation residual is the sentinel
  \<open>- 1\<close>: density, momentum and energy of the flow operator, nuTilda of
  Spalart-Allmaras, kappa and omega of Kappa-Omega. So the maximum over the equations
  of the flow operator is \<open>- 1\<close>, \<^verbatim>\<open>residual()\<close> of each closure is \<open>- 1\<close>, and so is
  \<^verbatim>\<open>residual()\<close> of a freshly constructed wrapper in each of its three states.
\<close>

theorem residual_sentinel_after_construction:
  "residualRho (myNavierStokes_ctor t m) = - 1
   \<and> residualM (myNavierStokes_ctor t m) = - 1
   \<and> residualEt (myNavierStokes_ctor t m) = - 1
   \<and> Foam_max (Foam_max (residualRho (myNavierStokes_ctor t m))
         (residualM (myNavierStokes_ctor t m))) (residualEt (myNavierStokes_ctor t m)) = - 1
   \<and> residualNuTilda (mySpalartAllmaras_ctor ns) = - 1
   \<and> SA_residual (mySpalartAllmaras_ctor ns) = - 1
   \<and> residualKappa (myKappaOmega_ctor ns) = - 1
   \<and> residualOmega (myKappaOmega_ctor ns) = - 1
   \<and> KW_residual (myKappaOmega_ctor ns) = - 1
   \<and> residual (fst (myTurbulence_ctor \<sigma>)) (snd (myTurbulence_ctor \<sigma>)) = Some (- 1)"
proof -
  have ns: "residualRho (myNavierStokes_ctor t m) = - 1
      \<and> residualM (myNavierStokes_ctor t m) = - 1
      \<and> residualEt (myNavierStokes_ctor t m) = - 1"
    by (simp add: myNavierStokes_ctor_def Let_def)
  then have nsr: "Foam_max (Foam_max (residualRho (myNavierStokes_ctor t m))
         (residualM (myNavierStokes_ctor t m))) (residualEt (myNavierStokes_ctor t m)) = - 1"
    by (simp add: Foam_max_def)
  have sa: "residualNuTilda (mySpalartAllmaras_ctor ns) = - 1"
    by (simp add: mySpalartAllmaras_ctor_def Let_def)
  have kw: "residualKappa (myKappaOmega_ctor ns) = - 1
      \<and> residualOmega (myKappaOmega_ctor ns) = - 1"
    by (simp add: myKappaOmega_ctor_def Let_def)
  have sa': "SA_residual (mySpalartAllmaras_ctor (NavierStokes \<sigma>)) = - 1"
    by (simp add: SA_residual_def mySpalartAllmaras_ctor_def Let_def)
  have kw': "KW_residual (myKappaOmega_ctor (NavierStokes \<sigma>)) = - 1"
    by (simp add: KW_residual_def Foam_max_def myKappaOmega_ctor_def Let_def)
  have w: "residual (fst (myTurbulence_ctor \<sigma>)) (snd (myTurbulence_ctor \<sigma>)) = Some (- 1)"
  proof -
    consider (sa) "configured_tag MG_TURON \<sigma> = ''SpalartAllmaras''
                   \<or> configured_tag MG_TURON \<sigma> = ''SA''"
      | (kw) "configured_tag MG_TURON \<sigma> = ''KappaOmega''
              \<or> configured_tag MG_TURON \<sigma> = ''KW''"
      | (off) "configured_tag MG_TURON \<sigma>
                 \<notin> {''SpalartAllmaras'', ''SA'', ''KappaOmega'', ''KW''}"
      by blast
    then show ?thesis
    proof cases
      case sa
      from ctor_SA [OF sa] sa sa' show ?thesis
        by (auto simp: myTurbulence_ctor_def residual_def deref_def)
    next
      case kw
      from ctor_KW [OF kw] kw kw' show ?thesis
        by (auto simp: myTurbulence_ctor_def residual_def deref_def)
    next
      case off
      from ctor_off [OF off] show ?thesis
        by (simp add: myTurbulence_ctor_def residual_def)
    qed
  qed
  from ns nsr sa kw w show ?thesis
    by (simp add: SA_residual_def KW_residual_def Foam_max_def)
qed

theorem residual_sentinel_after_construction_witness:
  "residualRho (myNavierStokes_ctor (sample_Time Map.empty) (sample_mesh ''*'')) = - 1
   \<and> KW_residual (myKappaOmega_ctor (NavierStokes (sample_world Map.empty ''*''))) = - 1
   \<and> residual (fst (myTurbulence_ctor (sample_world [''turbulence'' \<mapsto> ''SA''] ''*'')))
        (snd (myTurbulence_ctor (sample_world [''turbulence'' \<mapsto> ''SA''] ''*''))) = Some (- 1)"
  using residual_sentinel_after_construction [of "sample_Time Map.empty" "sample_mesh ''*''"
      "NavierStokes (sample_world Map.empty ''*'')"
      "sample_world [''turbulence'' \<mapsto> ''SA''] ''*''"]
  by blast

text \<open>
  Claim C6. The value of \<^verbatim>\<open>size()\<close> is set by the constructor: 0 with the tag "off",
  1 with a Spalart-Allmaras object behind the pointer, 2 with a Kappa-Omega object,
  in agreement with the object's own \<^verbatim>\<open>size()\<close>. Every sequence of forwarded calls
  runs to its end, whatever the bodies of the closures' methods are, and leaves
  \<^verbatim>\<open>size()\<close> and \<^verbatim>\<open>tag()\<close> as they were. After it, in an Active wrapper,
  \<^verbatim>\<open>conservative(ic)\<close>, \<^verbatim>\<open>conservative_o(ic)\<close>, \<^verbatim>\<open>body(ic)\<close> and \<^verbatim>\<open>rhs(ic)\<close> return, for
  every index, a reference to an array of the owned closure object, never the dummy
  array.
\<close>

theorem size_fixed_and_accessors_own:
  assumes "myTurbulence_ctor \<sigma>0 = (w, \<sigma>1)"
  shows "(tag w = ''off'' \<and> size_T w = 0
          \<or> tag w \<in> {''SpalartAllmaras'', ''SA''} \<and> size_T w = 1
             \<and> deref w \<sigma>1 = Some (SA (mySpalartAllmaras_ctor (NavierStokes \<sigma>0)))
             \<and> MYTURBULENCE_size (SA (mySpalartAllmaras_ctor (NavierStokes \<sigma>0))) = 1
          \<or> tag w \<in> {''KappaOmega'', ''KW''} \<and> size_T w = 2
             \<and> deref w \<sigma>1 = Some (KW (myKappaOmega_ctor (NavierStokes \<sigma>0)))
             \<and> MYTURBULENCE_size (KW (myKappaOmega_ctor (NavierStokes \<sigma>0))) = 2)
     \<and> (\<exists>w' \<sigma>2. run b ms (w, \<sigma>1) = Some (w', \<sigma>2)
          \<and> size_T w' = size_T w \<and> tag w' = tag w
          \<and> (tag w' \<noteq> ''off'' \<longrightarrow>
                (\<exists>r. conservative w' \<sigma>2 ic = Some r \<and> own_ref w' r \<and> r \<noteq> Dummy
                      \<and> read_ref w' \<sigma>2 r \<noteq> None)
              \<and> (\<exists>r. conservative_o w' \<sigma>2 ic = Some r \<and> own_ref w' r \<and> r \<noteq> Dummy
                      \<and> read_ref w' \<sigma>2 r \<noteq> None)
              \<and> (\<exists>r. body w' \<sigma>2 ic = Some r \<and> own_ref w' r \<and> r \<noteq> Dummy
                      \<and> read_ref w' \<sigma>2 r \<noteq> None)
              \<and> (\<exists>r. rhs w' \<sigma>2 ic = Some r \<and> own_ref w' r \<and> r \<noteq> Dummy
                      \<and> read_ref w' \<sigma>2 r \<noteq> None)))"
proof (rule conjI)
  have a: "myTurbulence_ctor_mg MG_TURON \<sigma>0 = (w, \<sigma>1)"
    using assms by (simp add: myTurbulence_ctor_def)
  consider (sa) "configured_tag MG_TURON \<sigma>0 = ''SpalartAllmaras''
                 \<or> configured_tag MG_TURON \<sigma>0 = ''SA''"
    | (kw) "configured_tag MG_TURON \<sigma>0 = ''KappaOmega''
            \<or> configured_tag MG_TURON \<sigma>0 = ''KW''"
    | (off) "configured_tag MG_TURON \<sigma>0
               \<notin> {''SpalartAllmaras'', ''SA'', ''KappaOmega'', ''KW''}"
    by blast
  then show "tag w = ''off'' \<and> size_T w = 0
          \<or> tag w \<in> {''SpalartAllmaras'', ''SA''} \<and> size_T w = 1
             \<and> deref w \<sigma>1 = Some (SA (mySpalartAllmaras_ctor (NavierStokes \<sigma>0)))
             \<and> MYTURBULENCE_size (SA (mySpalartAllmaras_ctor (NavierStokes \<sigma>0))) = 1
          \<or> tag w \<in> {''KappaOmega'', ''KW''} \<and> size_T w = 2
             \<and> deref w \<sigma>1 = Some (KW (myKappaOmega_ctor (NavierStokes \<sigma>0)))
             \<and> MYTURBULENCE_size (KW (myKappaOmega_ctor (NavierStokes \<sigma>0))) = 2"
  proof cases
    case sa
    have "SA_size (mySpalartAllmaras_ctor (NavierStokes \<sigma>0)) = 1"
      by (simp add: mySpalartAllmaras_ctor_def Let_def)
    with ctor_SA [OF sa] a sa show ?thesis
      by (auto simp: tag_def size_T_def deref_def)
  next
    case kw
    have "KW_size (myKappaOmega_ctor (NavierStokes \<sigma>0)) = 2"
      by (simp add: myKappaOmega_ctor_def Let_def)
    with ctor_KW [OF kw] a kw show ?thesis
      by (auto simp: tag_def size_T_def deref_def)
  next
    case off
    from ctor_off [OF off] a show ?thesis
      by (auto simp: tag_def size_T_def)
  qed
  from ctor_consistent [OF a] have "consistent w \<sigma>1" .
  from run_consistent [OF this] obtain \<sigma>2
    where r: "run b ms (w, \<sigma>1) = Some (w, \<sigma>2)" and c: "consistent w \<sigma>2" by blast
  have acc: "\<exists>r. virtual_accessor sa kw w \<sigma>2 ic = Some r \<and> own_ref w r \<and> r \<noteq> Dummy
      \<and> read_ref w \<sigma>2 r \<noteq> None" if "T_tag w \<noteq> ''off''" for sa kw
  proof -
    from accessor_active [OF c that] obtain r
      where "virtual_accessor sa kw w \<sigma>2 ic = Some r" "own_ref w r" "read_ref w \<sigma>2 r \<noteq> None"
      by blast
    moreover from \<open>own_ref w r\<close> have "r \<noteq> Dummy" by auto
    ultimately show ?thesis by blast
  qed
  have "tag w \<noteq> ''off'' \<longrightarrow>
                (\<exists>r. conservative w \<sigma>2 ic = Some r \<and> own_ref w r \<and> r \<noteq> Dummy
                      \<and> read_ref w \<sigma>2 r \<noteq> None)
              \<and> (\<exists>r. conservative_o w \<sigma>2 ic = Some r \<and> own_ref w r \<and> r \<noteq> Dummy
                      \<and> read_ref w \<sigma>2 r \<noteq> None)
              \<and> (\<exists>r. body w \<sigma>2 ic = Some r \<and> own_ref w r \<and> r \<noteq> Dummy
                      \<and> read_ref w \<sigma>2 r \<noteq> None)
              \<and> (\<exists>r. rhs w \<sigma>2 ic = Some r \<and> own_ref w r \<and> r \<noteq> Dummy
                      \<and> read_ref w \<sigma>2 r \<noteq> None)"
    using acc by (simp add: tag_def conservative_def conservative_o_def body_def rhs_def)
  with r show "\<exists>w' \<sigma>2. run b ms (w, \<sigma>1) = Some (w', \<sigma>2)
          \<and> size_T w' = size_T w \<and> tag w' = tag w
          \<and> (tag w' \<noteq> ''off'' \<longrightarrow>
                (\<exists>r. conservative w' \<sigma>2 ic = Some r \<and> own_ref w' r \<and> r \<noteq> Dummy
                      \<and> read_ref w' \<sigma>2 r \<noteq> None)
              \<and> (\<exists>r. conservative_o w' \<sigma>2 ic = Some r \<and> own_ref w' r \<and> r \<noteq> Dummy
                      \<and> read_ref w' \<sigma>2 r \<noteq> None)
              \<and> (\<exists>r. body w' \<sigma>2 ic = Some r \<and> own_ref w' r \<and> r \<noteq> Dummy
                      \<and> read_ref w' \<sigma>2 r \<noteq> None)
              \<and> (\<exists>r. rhs w' \<sigma>2 ic = Some r \<and> own_ref w' r \<and> r \<noteq> Dummy
                      \<and> read_ref w' \<sigma>2 r \<noteq> None))"
    by blast
qed

theorem size_fixed_and_accessors_own_witness:
  "size_T (fst (myTurbulence_ctor (sample_world [''turbulence'' \<mapsto> ''KW''] ''*''))) = 2
   \<and> tag (fst (myTurbulence_ctor (sample_world [''turbulence'' \<mapsto> ''KW''] ''*''))) \<noteq> ''off''
   \<and> (\<exists>w' \<sigma>2. run sample_bodies [UpdateResidual ''none'', Store, ResetRhs]
          (myTurbulence_ctor (sample_world [''turbulence'' \<mapsto> ''KW''] ''*'')) = Some (w', \<sigma>2)
        \<and> size_T w' = 2
        \<and> (\<exists>r. conservative w' \<sigma>2 1 = Some r \<and> own_ref w' r \<and> r \<noteq> Dummy)
        \<and> (\<exists>r. rhs w' \<sigma>2 1 = Some r \<and> own_ref w' r \<and> r \<noteq> Dummy))"
proof -
  let ?c = "myTurbulence_ctor (sample_world [''turbulence'' \<mapsto> ''KW''] ''*'')"
  have p: "?c = (fst ?c, snd ?c)" by simp
  have s: "size_T (fst ?c) = 2" and t: "tag (fst ?c) = ''KW''"
    unfolding sample_ctor_KW by (simp_all add: size_T_def tag_def)
  from t have t': "tag (fst ?c) \<noteq> ''off''" by simp
  from size_fixed_and_accessors_own [OF p,
      of sample_bodies "[UpdateResidual ''none'', Store, ResetRhs]" 1]
  obtain w' \<sigma>2 where r: "run sample_bodies [UpdateResidual ''none'', Store, ResetRhs]
        (fst ?c, snd ?c) = Some (w', \<sigma>2)"
    and e: "size_T w' = size_T (fst ?c)" "tag w' = tag (fst ?c)"
    and a: "tag w' \<noteq> ''off'' \<longrightarrow>
                (\<exists>r. conservative w' \<sigma>2 1 = Some r \<and> own_ref w' r \<and> r \<noteq> Dummy
                      \<and> read_ref w' \<sigma>2 r \<noteq> None)
              \<and> (\<exists>r. conservative_o w' \<sigma>2 1 = Some r \<and> own_ref w' r \<and> r \<noteq> Dummy
                      \<and> read_ref w' \<sigma>2 r \<noteq> None)
              \<and> (\<exists>r. body w' \<sigma>2 1 = Some r \<and> own_ref w' r \<and> r \<noteq> Dummy
                      \<and> read_ref w' \<sigma>2 r \<noteq> None)
              \<and> (\<exists>r. rhs w' \<sigma>2 1 = Some r \<and> own_ref w' r \<and> r \<noteq> Dummy
                      \<and> read_ref w' \<sigma>2 r \<noteq> None)"
    by blast
  from e t' have "tag w' \<noteq> ''off''" by simp
  with a have "(\<exists>r. conservative w' \<sigma>2 1 = Some r \<and> own_ref w' r \<and> r \<noteq> Dummy)
     \<and> (\<exists>r. rhs w' \<sigma>2 1 = Some r \<and> own_ref w' r \<and> r \<noteq> Dummy)"
    by blast
  with r e s have "\<exists>w' \<sigma>2. run sample_bodies [UpdateResidual ''none'', Store, ResetRhs]
          ?c = Some (w', \<sigma>2)
        \<and> size_T w' = 2
        \<and> (\<exists>r. conservative w' \<sigma>2 1 = Some r \<and> own_ref w' r \<and> r \<noteq> Dummy)
        \<and> (\<exists>r. rhs w' \<sigma>2 1 = Some r \<and> own_ref w' r \<and> r \<noteq> Dummy)"
    by (simp only: prod.collapse) blast
  with s t' show ?thesis by blast
qed

text \<open>
  Claim C7. After construction no sequence of forwarded calls changes the wrapper:
  its tag, equation count, dummy array and pointer are returned as they were, so Off
  stays Off and Active stays Active. In the Off state the pointer is null, the
  constructor has allocated nothing, and the destructor deletes nothing; in the Active
  state the destructor deletes the one object that the constructor allocated.
\<close>

theorem registry_immutable:
  assumes "myTurbulence_ctor \<sigma>0 = (w, \<sigma>1)"
  shows "(\<exists>\<sigma>2. run b ms (w, \<sigma>1) = Some (w, \<sigma>2))
     \<and> (tag w = ''off'' \<longrightarrow>
          T_turbulence w = None \<and> \<sigma>1 = \<sigma>0 \<and> myTurbulence_dtor w \<sigma>1 = (\<sigma>1, []))
     \<and> (tag w \<noteq> ''off'' \<longrightarrow>
          T_turbulence w = Some (next_addr \<sigma>0) \<and> heap \<sigma>1 (next_addr \<sigma>0) \<noteq> None
          \<and> myTurbulence_dtor w \<sigma>1
              = (\<sigma>1\<lparr> heap := (heap \<sigma>1)(next_addr \<sigma>0 := None) \<rparr>, [Some (next_addr \<sigma>0)]))"
proof -
  have a: "myTurbulence_ctor_mg MG_TURON \<sigma>0 = (w, \<sigma>1)"
    using assms by (simp add: myTurbulence_ctor_def)
  from run_consistent [OF ctor_consistent [OF a]]
  have 1: "\<exists>\<sigma>2. run b ms (w, \<sigma>1) = Some (w, \<sigma>2)" by blast
  consider (sa) "configured_tag MG_TURON \<sigma>0 = ''SpalartAllmaras''
                 \<or> configured_tag MG_TURON \<sigma>0 = ''SA''"
    | (kw) "configured_tag MG_TURON \<sigma>0 = ''KappaOmega''
            \<or> configured_tag MG_TURON \<sigma>0 = ''KW''"
    | (off) "configured_tag MG_TURON \<sigma>0
               \<notin> {''SpalartAllmaras'', ''SA'', ''KappaOmega'', ''KW''}"
    by blast
  then have 2: "(tag w = ''off'' \<longrightarrow>
          T_turbulence w = None \<and> \<sigma>1 = \<sigma>0 \<and> myTurbulence_dtor w \<sigma>1 = (\<sigma>1, []))
     \<and> (tag w \<noteq> ''off'' \<longrightarrow>
          T_turbulence w = Some (next_addr \<sigma>0) \<and> heap \<sigma>1 (next_addr \<sigma>0) \<noteq> None
          \<and> myTurbulence_dtor w \<sigma>1
              = (\<sigma>1\<lparr> heap := (heap \<sigma>1)(next_addr \<sigma>0 := None) \<rparr>, [Some (next_addr \<sigma>0)]))"
  proof cases
    case sa
    from ctor_SA [OF sa] a sa show ?thesis
      by (auto simp: tag_def myTurbulence_dtor_def)
  next
    case kw
    from ctor_KW [OF kw] a kw show ?thesis
      by (auto simp: tag_def myTurbulence_dtor_def)
  next
    case off
    from ctor_off [OF off] a show ?thesis
      by (auto simp: tag_def myTurbulence_dtor_def)
  qed
  from 1 2 show ?thesis by blast
qed

theorem registry_immutable_witness:
  "tag (fst (myTurbulence_ctor (sample_world [''turbulence'' \<mapsto> ''KW''] ''*''))) \<noteq> ''off''
   \<and> (\<exists>\<sigma>2. run sample_bodies [Advection, Solve 1 2 (1 / 2), BuildDTS 1]
          (myTurbulence_ctor (sample_world [''turbulence'' \<mapsto> ''KW''] ''*''))
        = Some (fst (myTurbulence_ctor (sample_world [''turbulence'' \<mapsto> ''KW''] ''*'')), \<sigma>2))
   \<and> snd (myTurbulence_dtor
        (fst (myTurbulence_ctor (sample_world [''turbulence'' \<mapsto> ''KW''] ''*'')))
        (snd (myTurbulence_ctor (sample_world [''turbulence'' \<mapsto> ''KW''] ''*'')))) = [Some 0]
   \<and> tag (fst (myTurbulence_ctor (sample_world Map.empty ''*''))) = ''off''
   \<and> T_turbulence (fst (myTurbulence_ctor (sample_world Map.empty ''*''))) = None
   \<and> snd (myTurbulence_dtor
        (fst (myTurbulence_ctor (sample_world Map.empty ''*'')))
        (snd (myTurbulence_ctor (sample_world Map.empty ''*'')))) = []"
proof -
  let ?a = "myTurbulence_ctor (sample_world [''turbulence'' \<mapsto> ''KW''] ''*'')"
  let ?o = "myTurbulence_ctor (sample_world Map.empty ''*'')"
  have pa: "?a = (fst ?a, snd ?a)" and po: "?o = (fst ?o, snd ?o)" by simp_all
  have ta: "tag (fst ?a) \<noteq> ''off''"
    unfolding sample_ctor_KW by (simp add: tag_def)
  have to: "tag (fst ?o) = ''off''"
    by (simp add: tag_def myTurbulence_ctor_def myTurbulence_ctor_mg_def MG_TURON_def
        sample_defs)
  have n: "next_addr (sample_world [''turbulence'' \<mapsto> ''KW''] ''*'') = 0"
    by (simp add: sample_world_def)
  from registry_immutable [OF pa, of sample_bodies "[Advection, Solve 1 2 (1 / 2), BuildDTS 1]"] ta
  have ra: "\<exists>\<sigma>2. run sample_bodies [Advection, Solve 1 2 (1 / 2), BuildDTS 1] (fst ?a, snd ?a)
      = Some (fst ?a, \<sigma>2)"
    and da: "myTurbulence_dtor (fst ?a) (snd ?a)
      = ((snd ?a)\<lparr> heap := (heap (snd ?a))
            (next_addr (sample_world [''turbulence'' \<mapsto> ''KW''] ''*'') := None) \<rparr>,
         [Some (next_addr (sample_world [''turbulence'' \<mapsto> ''KW''] ''*''))])"
    by blast+
  from ra have 1: "\<exists>\<sigma>2. run sample_bodies [Advection, Solve 1 2 (1 / 2), BuildDTS 1] ?a
      = Some (fst ?a, \<sigma>2)"
    by (simp only: prod.collapse)
  from da have 2: "snd (myTurbulence_dtor (fst ?a) (snd ?a)) = [Some 0]"
    by (simp only: n snd_conv)
  from registry_immutable [OF po, of sample_bodies "[]"] to
  have 3: "T_turbulence (fst ?o) = None"
    and do: "myTurbulence_dtor (fst ?o) (snd ?o) = (snd ?o, [])"
    by blast+
  from do have 4: "snd (myTurbulence_dtor (fst ?o) (snd ?o)) = []"
    by (simp only: snd_conv)
  from ta 1 2 to 3 4 show ?thesis by blast
qed

text \<open>
  Claim C8. Compiled with \<^verbatim>\<open>MG_TURON == 0\<close>, the constructor on a mesh whose tag is not
  "*" yields the Off wrapper and allocates nothing, whatever tag is configured (on the
  mesh "*" it does what the shipped build does). The shipped value of \<^verbatim>\<open>MG_TURON\<close> is
  \<open>1\<close>, and there a recognised tag makes the wrapper Active on every mesh.
\<close>

theorem multigrid_suppression:
  "(mesh_tag (NS_mesh (NavierStokes \<sigma>)) \<noteq> ''*'' \<longrightarrow>
      myTurbulence_ctor_mg 0 \<sigma>
        = (\<lparr> T_tag = ''off'', T_size = 0, T_dummy = [0], T_turbulence = None \<rparr>, \<sigma>))
   \<and> (mesh_tag (NS_mesh (NavierStokes \<sigma>)) = ''*'' \<longrightarrow>
        myTurbulence_ctor_mg 0 \<sigma> = myTurbulence_ctor \<sigma>)
   \<and> MG_TURON = 1
   \<and> (controlDict (NS_time (NavierStokes \<sigma>)) ''turbulence''
         \<in> {Some ''SpalartAllmaras'', Some ''SA'', Some ''KappaOmega'', Some ''KW''} \<longrightarrow>
       Some (tag (fst (myTurbulence_ctor \<sigma>)))
         = controlDict (NS_time (NavierStokes \<sigma>)) ''turbulence''
       \<and> T_turbulence (fst (myTurbulence_ctor \<sigma>)) = Some (next_addr \<sigma>))"
proof (intro conjI impI)
  assume "mesh_tag (NS_mesh (NavierStokes \<sigma>)) \<noteq> ''*''"
  then have "configured_tag 0 \<sigma> = ''off''"
    by (simp add: configured_tag_def)
  then have "configured_tag 0 \<sigma> \<notin> {''SpalartAllmaras'', ''SA'', ''KappaOmega'', ''KW''}"
    by simp
  from ctor_off [OF this]
  show "myTurbulence_ctor_mg 0 \<sigma>
        = (\<lparr> T_tag = ''off'', T_size = 0, T_dummy = [0], T_turbulence = None \<rparr>, \<sigma>)" .
next
  assume "mesh_tag (NS_mesh (NavierStokes \<sigma>)) = ''*''"
  then show "myTurbulence_ctor_mg 0 \<sigma> = myTurbulence_ctor \<sigma>"
    by (simp add: myTurbulence_ctor_def myTurbulence_ctor_mg_def MG_TURON_def)
next
  show "MG_TURON = 1" by (simp add: MG_TURON_def)
next
  assume a: "controlDict (NS_time (NavierStokes \<sigma>)) ''turbulence''
         \<in> {Some ''SpalartAllmaras'', Some ''SA'', Some ''KappaOmega'', Some ''KW''}"
  then have e: "controlDict (NS_time (NavierStokes \<sigma>)) ''turbulence''
      = Some (configured_tag MG_TURON \<sigma>)"
    by (auto simp: configured_tag_shipped)
  from a consider (sa) "configured_tag MG_TURON \<sigma> = ''SpalartAllmaras''
                   \<or> configured_tag MG_TURON \<sigma> = ''SA''"
    | (kw) "configured_tag MG_TURON \<sigma> = ''KappaOmega''
              \<or> configured_tag MG_TURON \<sigma> = ''KW''"
    by (auto simp: configured_tag_shipped)
  then have "T_tag (fst (myTurbulence_ctor \<sigma>)) = configured_tag MG_TURON \<sigma>
      \<and> T_turbulence (fst (myTurbulence_ctor \<sigma>)) = Some (next_addr \<sigma>)"
  proof cases
    case sa
    from ctor_SA [OF sa] show ?thesis by (simp add: myTurbulence_ctor_def)
  next
    case kw
    from ctor_KW [OF kw] show ?thesis by (simp add: myTurbulence_ctor_def)
  qed
  with e show "Some (tag (fst (myTurbulence_ctor \<sigma>)))
         = controlDict (NS_time (NavierStokes \<sigma>)) ''turbulence''"
    "T_turbulence (fst (myTurbulence_ctor \<sigma>)) = Some (next_addr \<sigma>)"
    by (simp_all add: tag_def)
qed

theorem multigrid_suppression_witness:
  "mesh_tag (NS_mesh (NavierStokes (sample_world [''turbulence'' \<mapsto> ''SpalartAllmaras''] ''1'')))
     \<noteq> ''*''
   \<and> controlDict (NS_time (NavierStokes
        (sample_world [''turbulence'' \<mapsto> ''SpalartAllmaras''] ''1''))) ''turbulence''
     = Some ''SpalartAllmaras''
   \<and> tag (fst (myTurbulence_ctor_mg 0
        (sample_world [''turbulence'' \<mapsto> ''SpalartAllmaras''] ''1''))) = ''off''
   \<and> tag (fst (myTurbulence_ctor
        (sample_world [''turbulence'' \<mapsto> ''SpalartAllmaras''] ''1''))) = ''SpalartAllmaras''
   \<and> myTurbulence_ctor_mg 0 (sample_world [''turbulence'' \<mapsto> ''SpalartAllmaras''] ''*'')
     = myTurbulence_ctor (sample_world [''turbulence'' \<mapsto> ''SpalartAllmaras''] ''*'')"
proof -
  let ?s = "sample_world [''turbulence'' \<mapsto> ''SpalartAllmaras''] ''1''"
  let ?s' = "sample_world [''turbulence'' \<mapsto> ''SpalartAllmaras''] ''*''"
  have h1: "mesh_tag (NS_mesh (NavierStokes ?s)) \<noteq> ''*''"
    by (simp add: sample_defs)
  have h2: "controlDict (NS_time (NavierStokes ?s)) ''turbulence'' = Some ''SpalartAllmaras''"
    by (simp add: sample_defs)
  have h3: "mesh_tag (NS_mesh (NavierStokes ?s')) = ''*''"
    by (simp add: sample_defs)
  from multigrid_suppression [of ?s] multigrid_suppression [of ?s'] h1 h3
  show ?thesis
    unfolding h2 by (simp add: tag_def)
qed

text \<open>
  Claim C9. Right after construction of a closure every entry of the array that
  \<^verbatim>\<open>conservative(ic)\<close> designates is at least \<open>1e-10\<close>, for every index and whatever
  values were restored: the constructors replace nuTilda, kappa and omega by their
  entrywise maximum with \<^verbatim>\<open>SA_SMALL\<close> and \<^verbatim>\<open>KW_SMALL\<close>.
\<close>

theorem closure_fields_bounded_below:
  "(\<forall>x \<in> set (SA_field (mySpalartAllmaras_ctor ns) (SA_conservative ic)). 1 / 10 ^ 10 \<le> x)
   \<and> (\<forall>x \<in> set (KW_field (myKappaOmega_ctor ns) (KW_conservative ic)). 1 / 10 ^ 10 \<le> x)
   \<and> nuTilda (mySpalartAllmaras_ctor ns)
       = map (\<lambda>x. max x SA_SMALL) (io_field (NS_time ns) ''nuTilda'')
   \<and> kappa (myKappaOmega_ctor ns)
       = map (\<lambda>x. max x KW_SMALL) (io_field (NS_time ns) ''kappa'')
   \<and> omega (myKappaOmega_ctor ns)
       = map (\<lambda>x. max x KW_SMALL) (io_field (NS_time ns) ''omega'')
   \<and> SA_SMALL = 1 / 10 ^ 10 \<and> KW_SMALL = 1 / 10 ^ 10"
proof -
  have sa: "nuTilda (mySpalartAllmaras_ctor ns)
      = Foam_max_field (io_field (NS_time ns) ''nuTilda'') SA_SMALL"
    by (simp add: mySpalartAllmaras_ctor_def Let_def)
  have ka: "kappa (myKappaOmega_ctor ns)
      = Foam_max_field (io_field (NS_time ns) ''kappa'') KW_SMALL"
    by (simp add: myKappaOmega_ctor_def Let_def)
  have om: "omega (myKappaOmega_ctor ns)
      = Foam_max_field (io_field (NS_time ns) ''omega'') KW_SMALL"
    by (simp add: myKappaOmega_ctor_def Let_def)
  have 1: "\<forall>x \<in> set (SA_field (mySpalartAllmaras_ctor ns) (SA_conservative ic)).
      1 / 10 ^ 10 \<le> x"
    using Foam_max_field_lower [of _ "io_field (NS_time ns) ''nuTilda''" SA_SMALL]
    by (simp add: SA_conservative_def sa SA_SMALL_def)
  have 2: "\<forall>x \<in> set (KW_field (myKappaOmega_ctor ns) (KW_conservative ic)).
      1 / 10 ^ 10 \<le> x"
    using Foam_max_field_lower [of _ "io_field (NS_time ns) ''kappa''" KW_SMALL]
      Foam_max_field_lower [of _ "io_field (NS_time ns) ''omega''" KW_SMALL]
    by (simp add: KW_conservative_def ka om KW_SMALL_def)
  from 1 2 show ?thesis
    by (simp add: sa ka om Foam_max_field_max SA_SMALL_def KW_SMALL_def)
qed

theorem closure_fields_bounded_below_witness:
  "SA_field (mySpalartAllmaras_ctor (NavierStokes (sample_world Map.empty ''*'')))
       (SA_conservative 0) = [1 / 10 ^ 10, 3, 1 / 10 ^ 10]
   \<and> KW_field (myKappaOmega_ctor (NavierStokes (sample_world Map.empty ''*'')))
       (KW_conservative 0) = [1 / 10 ^ 10, 5, 1 / 10 ^ 10]
   \<and> io_field (NS_time (NavierStokes (sample_world Map.empty ''*''))) ''nuTilda'' ! 2 = - 2
   \<and> 1 / 10 ^ 10 \<le> SA_field (mySpalartAllmaras_ctor
         (NavierStokes (sample_world Map.empty ''*''))) (SA_conservative 0) ! 2
   \<and> 1 / 10 ^ 10 \<le> KW_field (myKappaOmega_ctor
         (NavierStokes (sample_world Map.empty ''*''))) (KW_conservative 0) ! 2"
proof -
  let ?ns = "NavierStokes (sample_world Map.empty ''*'')"
  let ?sa = "SA_field (mySpalartAllmaras_ctor ?ns) (SA_conservative 0)"
  let ?kw = "KW_field (myKappaOmega_ctor ?ns) (KW_conservative 0)"
  have 1: "?sa = [1 / 10 ^ 10, 3, 1 / 10 ^ 10]"
    by (simp add: SA_conservative_def mySpalartAllmaras_ctor_def Foam_max_field_def
        Foam_max_def SA_SMALL_def sample_defs)
  have 2: "?kw = [1 / 10 ^ 10, 5, 1 / 10 ^ 10]"
    by (simp add: KW_conservative_def myKappaOmega_ctor_def Foam_max_field_def
        Foam_max_def KW_SMALL_def sample_defs)
  have 3: "io_field (NS_time ?ns) ''nuTilda'' ! 2 = - 2"
    by (simp add: sample_defs)
  have m1: "?sa ! 2 \<in> set ?sa" and m2: "?kw ! 2 \<in> set ?kw"
    unfolding 1 2 by simp_all
  from closure_fields_bounded_below [of ?ns 0]
  have b1: "\<forall>x \<in> set ?sa. 1 / 10 ^ 10 \<le> x" and b2: "\<forall>x \<in> set ?kw. 1 / 10 ^ 10 \<le> x"
    by blast+
  from b1 m1 have 4: "1 / 10 ^ 10 \<le> ?sa ! 2" by (rule bspec)
  from b2 m2 have 5: "1 / 10 ^ 10 \<le> ?kw ! 2" by (rule bspec)
  from 1 2 3 4 5 show ?thesis by blast
qed

text \<open>
  Claim C10. The accessors of the concrete closures are defined for every index:
  those of \<^verbatim>\<open>mySpalartAllmaras\<close> ignore the index and return the arrays of the nuTilda
  equation; those of \<^verbatim>\<open>myKappaOmega\<close> return the arrays of the kappa equation exactly
  when the index is \<open>0\<close> and those of the omega equation for every other index,
  negative or beyond the size included.
\<close>

theorem closure_accessors_total:
  "SA_conservative ic = NuTilda \<and> SA_conservative_o ic = NuTilda_o
   \<and> SA_body ic = BodyNuTilda \<and> SA_rhs ic = RhsNuTilda
   \<and> SA_field s (SA_conservative ic) = nuTilda s
   \<and> SA_field s (SA_conservative_o ic) = nuTilda_o s
   \<and> SA_field s (SA_body ic) = bodyNuTilda s
   \<and> SA_field s (SA_rhs ic) = rhsNuTilda s
   \<and> (KW_conservative ic = Kappa) = (ic = 0) \<and> (KW_conservative ic = Omega) = (ic \<noteq> 0)
   \<and> (KW_conservative_o ic = Kappa_o) = (ic = 0)
   \<and> (KW_conservative_o ic = Omega_o) = (ic \<noteq> 0)
   \<and> (KW_body ic = BodyKappa) = (ic = 0) \<and> (KW_body ic = BodyOmega) = (ic \<noteq> 0)
   \<and> (KW_rhs ic = RhsKappa) = (ic = 0) \<and> (KW_rhs ic = RhsOmega) = (ic \<noteq> 0)
   \<and> KW_field k (KW_conservative ic) = (if ic = 0 then kappa k else omega k)
   \<and> KW_field k (KW_conservative_o ic) = (if ic = 0 then kappa_o k else omega_o k)
   \<and> KW_field k (KW_body ic) = (if ic = 0 then bodyKappa k else bodyOmega k)
   \<and> KW_field k (KW_rhs ic) = (if ic = 0 then rhsKappa k else rhsOmega k)"
  by (simp add: SA_conservative_def SA_conservative_o_def SA_body_def SA_rhs_def
      KW_conservative_def KW_conservative_o_def KW_body_def KW_rhs_def)

theorem closure_accessors_total_witness:
  "KW_conservative (- 1) = Omega \<and> KW_conservative 0 = Kappa \<and> KW_conservative 2 = Omega
   \<and> KW_rhs 5 = RhsOmega \<and> SA_conservative (- 3) = NuTilda \<and> SA_body 4 = BodyNuTilda"
  using closure_accessors_total [of "- 1"] closure_accessors_total [of 0]
    closure_accessors_total [of 2] closure_accessors_total [of 5]
    closure_accessors_total [of "- 3"] closure_accessors_total [of 4]
  by (simp add: KW_rhs_def)

end
